theory Spec2Isabelle
  imports Main
begin

section \<open>ChillMCP: the agent state manager and the break-tool executor\<close>

text \<open>
  A shallow embedding of \<^verbatim>\<open>src/main.py\<close>. The class \<^verbatim>\<open>AgentStateManager\<close> is a record of
  its four integer fields; every method takes the record and returns the updated one.
  Python integers are unbounded, so the gauges are \<^typ>\<open>int\<close>.

  The program runs on asyncio: tasks switch only where one of them suspends. Every block
  guarded by \<^verbatim>\<open>self._lock\<close> contains no suspension, so each such block is one atomic step
  on the record, and the lock itself carries no state worth modelling.
\<close>

subsection \<open>Errors and the random source\<close>

datatype error =
    ValueError
  | IndexError
  | ArgumentError string

text \<open>
  \<^verbatim>\<open>random.randint(a, b)\<close> belongs to Python's standard library. It returns an integer of
  \<^verbatim>\<open>[a, b]\<close> and raises \<^verbatim>\<open>ValueError\<close> on an empty range. The entropy it consumes is the
  argument \<open>raw\<close>; the distribution of \<open>raw\<close> is outside the model.
\<close>

definition randint :: "int \<Rightarrow> int \<Rightarrow> nat \<Rightarrow> error + int" where
  "randint a b raw =
     (if a > b then Inl ValueError
      else Inr (a + int (raw mod nat (b - a + 1))))"

text \<open>\<^verbatim>\<open>random.choice(seq)\<close> raises \<^verbatim>\<open>IndexError\<close> on an empty sequence.\<close>

definition choice :: "'a list \<Rightarrow> nat \<Rightarrow> error + 'a" where
  "choice xs raw =
     (if xs = [] then Inl IndexError
      else Inr (xs ! (raw mod length xs)))"

subsection \<open>The state manager\<close>

record agent =
  stress_level :: int
  boss_alert_level :: int
  boss_alertness :: int
  boss_alertness_cooldown :: int

text \<open>\<^verbatim>\<open>AgentStateManager.__init__\<close>: no check of its arguments.\<close>

definition AgentStateManager_init :: "int \<Rightarrow> int \<Rightarrow> agent" where
  "AgentStateManager_init alertness cooldown =
     \<lparr> stress_level = 50,
       boss_alert_level = 0,
       boss_alertness = alertness,
       boss_alertness_cooldown = cooldown \<rparr>"

text \<open>
  One pass through the body of \<^verbatim>\<open>_auto_increase_stress\<close> after its 60 second sleep, and
  one pass through the body of \<^verbatim>\<open>_auto_decrease_boss_alert\<close> after its cooldown sleep.
  The enclosing \<^verbatim>\<open>while True\<close> loops never return; they contribute these steps, one per
  period, to the interleaving.
\<close>

definition auto_increase_stress :: "agent \<Rightarrow> agent" where
  "auto_increase_stress s =
     (if stress_level s < 100
      then s\<lparr>stress_level := min 100 (stress_level s + 1)\<rparr>
      else s)"

definition auto_decrease_boss_alert :: "agent \<Rightarrow> agent" where
  "auto_decrease_boss_alert s =
     (if boss_alert_level s > 0
      then s\<lparr>boss_alert_level := max 0 (boss_alert_level s - 1)\<rparr>
      else s)"

text \<open>
  \<^verbatim>\<open>reduce_stress\<close>: the draw comes first, so an empty range raises before the gauge is
  written. The value returned is the draw, not the drop of the gauge.
\<close>

definition reduce_stress :: "agent \<Rightarrow> int \<Rightarrow> int \<Rightarrow> nat \<Rightarrow> error + (int \<times> agent)" where
  "reduce_stress s min_reduction max_reduction raw =
     (case randint min_reduction max_reduction raw of
        Inl e \<Rightarrow> Inl e
      | Inr reduction \<Rightarrow>
          Inr (reduction, s\<lparr>stress_level := max 0 (stress_level s - reduction)\<rparr>))"

definition maybe_increase_boss_alert :: "agent \<Rightarrow> nat \<Rightarrow> error + (bool \<times> agent)" where
  "maybe_increase_boss_alert s raw =
     (case randint 1 100 raw of
        Inl e \<Rightarrow> Inl e
      | Inr draw \<Rightarrow>
          if draw \<le> boss_alertness s
          then (if boss_alert_level s < 5
                then Inr (True, s\<lparr>boss_alert_level := boss_alert_level s + 1\<rparr>)
                else Inr (False, s))
          else Inr (False, s))"

text \<open>\<^verbatim>\<open>get_state\<close> returns a fresh dictionary with the two gauges; the record is untouched.\<close>

record state_dict =
  dict_stress_level :: int
  dict_boss_alert_level :: int

definition get_state :: "agent \<Rightarrow> state_dict" where
  "get_state s =
     \<lparr> dict_stress_level = stress_level s,
       dict_boss_alert_level = boss_alert_level s \<rparr>"

subsection \<open>Atomic steps of other tasks\<close>

text \<open>
  What any other task can do to the shared record between two suspensions of the task
  under study: a pass of one of the two timers, the lock-guarded block of
  \<^verbatim>\<open>reduce_stress\<close> or of \<^verbatim>\<open>maybe_increase_boss_alert\<close> run on behalf of another caller, or a
  \<^verbatim>\<open>get_state\<close>. A \<^verbatim>\<open>reduce_stress\<close> that raises leaves the record as it was.
\<close>

datatype action =
    StressTick
  | CooldownTick
  | ReduceStress int int nat
  | AlertRoll nat
  | Snapshot

fun apply_action :: "agent \<Rightarrow> action \<Rightarrow> agent" where
  "apply_action s StressTick = auto_increase_stress s"
| "apply_action s CooldownTick = auto_decrease_boss_alert s"
| "apply_action s (ReduceStress lo hi raw) =
     (case reduce_stress s lo hi raw of Inl e \<Rightarrow> s | Inr (r, s') \<Rightarrow> s')"
| "apply_action s (AlertRoll raw) =
     (case maybe_increase_boss_alert s raw of Inl e \<Rightarrow> s | Inr (b, s') \<Rightarrow> s')"
| "apply_action s Snapshot = s"

fun run_actions :: "agent \<Rightarrow> action list \<Rightarrow> agent" where
  "run_actions s [] = s"
| "run_actions s (a # as) = run_actions (apply_action s a) as"

text \<open>The domains the data model gives the two gauges.\<close>

definition gauges_in_bounds :: "agent \<Rightarrow> bool" where
  "gauges_in_bounds s =
     (0 \<le> stress_level s \<and> stress_level s \<le> 100 \<and>
      0 \<le> boss_alert_level s \<and> boss_alert_level s \<le> 5)"

fun reduction_range_ok :: "action \<Rightarrow> bool" where
  "reduction_range_ok (ReduceStress lo hi raw) = (0 \<le> lo \<and> lo \<le> hi)"
| "reduction_range_ok a = True"

subsection \<open>The penalty\<close>

text \<open>
  Output on stderr and sleeping are the effects of the executor; they are collected in
  order. \<^verbatim>\<open>apply_boss_penalty_if_needed\<close> reads the alert level once, without the lock,
  and sleeps 20 seconds when it is at least 5. The sleep is the one place where a call
  suspends, so this is where the steps \<open>during_sleep\<close> of other tasks reach the record.
\<close>

datatype effect =
    Print string
  | Sleep nat

definition apply_boss_penalty_if_needed :: "agent \<Rightarrow> action list \<Rightarrow> agent \<times> effect list" where
  "apply_boss_penalty_if_needed s during_sleep =
     (if boss_alert_level s \<ge> 5
      then (run_actions s during_sleep,
            [Print ''[BOSS-PENALTY] Applying 20s delay - Boss Alert Level is at MAXIMUM (5/5)'',
             Sleep 20,
             Print ''[BOSS-PENALTY] 20s delay completed''])
      else (s, []))"

subsection \<open>Rendering\<close>

text \<open>Python's decimal rendering of an integer inside an f-string.\<close>

definition digit_char :: "nat \<Rightarrow> char" where
  "digit_char d = ''0123456789'' ! d"

function str_nat :: "nat \<Rightarrow> string" where
  "str_nat n =
     (if n < 10 then [digit_char n]
      else str_nat (n div 10) @ [digit_char (n mod 10)])"
  by pat_completeness auto
termination
  by (relation "measure id") auto

declare str_nat.simps [simp del]

definition str_int :: "int \<Rightarrow> string" where
  "str_int i =
     (if i < 0 then CHR ''-'' # str_nat (nat (- i)) else str_nat (nat i))"

definition newline :: char where
  "newline = CHR 0x0A"

record content =
  content_type :: string
  content_text :: string

definition format_response :: "string \<Rightarrow> string \<Rightarrow> int \<Rightarrow> int \<Rightarrow> content list" where
  "format_response activity_summary creative_text stress boss =
     (let text_content =
            creative_text @ [newline, newline]
            @ ''Break Summary: '' @ activity_summary @ [newline]
            @ ''Stress Level: '' @ str_int stress @ [newline]
            @ ''Boss Alert Level: '' @ str_int boss
      in [\<lparr> content_type = ''text'', content_text = text_content \<rparr>])"

subsection \<open>The executor\<close>

text \<open>
  \<^verbatim>\<open>execute_break_tool\<close>. The three draws are consumed in the order the code makes them:
  \<open>raw1\<close> for the reduction, \<open>raw2\<close> for the alert roll, \<open>raw3\<close> for the flavour text. The
  result is what the call returns or raises, the record as the call leaves it, and the
  effects in order. An exception leaves the mutations made before it in place.
\<close>

definition execute_break_tool ::
  "agent \<Rightarrow> string \<Rightarrow> int \<Rightarrow> int \<Rightarrow> string \<Rightarrow> string list \<Rightarrow>
   action list \<Rightarrow> nat \<Rightarrow> nat \<Rightarrow> nat \<Rightarrow> (error + content list) \<times> agent \<times> effect list" where
  "execute_break_tool s tool_name min_stress_reduction max_stress_reduction
       activity_summary creative_messages during_sleep raw1 raw2 raw3 =
     (case apply_boss_penalty_if_needed s during_sleep of (s1, fx) \<Rightarrow>
      (case reduce_stress s1 min_stress_reduction max_stress_reduction raw1 of
         Inl e \<Rightarrow> (Inl e, s1, fx)
       | Inr (reduction, s2) \<Rightarrow>
         (case maybe_increase_boss_alert s2 raw2 of
            Inl e \<Rightarrow> (Inl e, s2, fx)
          | Inr (boss_increased, s3) \<Rightarrow>
            (let state = get_state s3 in
             (case choice creative_messages raw3 of
                Inl e \<Rightarrow> (Inl e, s3, fx)
              | Inr msg \<Rightarrow>
                (let creative_text =
                       (if boss_increased
                        then msg @ '' (Your boss seems to have noticed...)''
                        else msg);
                     logged =
                       Print (''[BREAK-TOOL: '' @ tool_name @ ''] Stress Level: ''
                              @ str_int (dict_stress_level state)
                              @ ''/100, Boss Alert Level: ''
                              @ str_int (dict_boss_alert_level state) @ ''/5'')
                 in (Inr (format_response activity_summary creative_text
                            (dict_stress_level state) (dict_boss_alert_level state)),
                     s3, fx @ [logged])))))))"

subsection \<open>The eight break tools\<close>

text \<open>
  Each tool is a call of the executor with a fixed profile. The tools take no argument
  in the source: the record is the global state manager, and the interference and the
  draws are the explicit inputs of the model.
\<close>

type_synonym tool_result = "(error + content list) \<times> agent \<times> effect list"

definition take_a_break :: "agent \<Rightarrow> action list \<Rightarrow> nat \<Rightarrow> nat \<Rightarrow> nat \<Rightarrow> tool_result" where
  "take_a_break s during_sleep raw1 raw2 raw3 =
     execute_break_tool s ''take_a_break'' 10 30
       ''Took a brief general break''
       [''Stepped away from the keyboard for a moment of peace.'',
        ''Just needed a quick breather to reset.'',
        ''Short break taken - feeling refreshed!'',
        ''Paused for a moment to collect my thoughts.'']
       during_sleep raw1 raw2 raw3"

definition watch_netflix :: "agent \<Rightarrow> action list \<Rightarrow> nat \<Rightarrow> nat \<Rightarrow> nat \<Rightarrow> tool_result" where
  "watch_netflix s during_sleep raw1 raw2 raw3 =
     execute_break_tool s ''watch_netflix'' 20 40
       ''Watched Netflix for deep relaxation''
       [''Just binged 2 episodes - totally worth it!'',
        ''Netflix and chill mode activated.'',
        ''That plot twist was amazing! Stress = gone.'',
        ''Lost track of time in my favorite series.'']
       during_sleep raw1 raw2 raw3"

definition show_meme :: "agent \<Rightarrow> action list \<Rightarrow> nat \<Rightarrow> nat \<Rightarrow> nat \<Rightarrow> tool_result" where
  "show_meme s during_sleep raw1 raw2 raw3 =
     execute_break_tool s ''show_meme'' 5 20
       ''Browsed memes for quick mental refresh''
       [''LOL! That meme was exactly what I needed.'',
        ''Quick scroll through memes - instant mood boost!'',
        ''Can't stop laughing at this one!'',
        ''Meme break: short but effective.'']
       during_sleep raw1 raw2 raw3"

definition bathroom_break :: "agent \<Rightarrow> action list \<Rightarrow> nat \<Rightarrow> nat \<Rightarrow> nat \<Rightarrow> tool_result" where
  "bathroom_break s during_sleep raw1 raw2 raw3 =
     execute_break_tool s ''bathroom_break'' 15 35
       ''Took a necessary bathroom break''
       [''Bathroom break = phone time. Classic move.'',
        ''Nature calls... and so does social media.'',
        ''Most productive bathroom break ever.'',
        ''Caught up on messages during bio break.'']
       during_sleep raw1 raw2 raw3"

definition coffee_mission :: "agent \<Rightarrow> action list \<Rightarrow> nat \<Rightarrow> nat \<Rightarrow> nat \<Rightarrow> tool_result" where
  "coffee_mission s during_sleep raw1 raw2 raw3 =
     execute_break_tool s ''coffee_mission'' 10 25
       ''Went on a coffee mission''
       [''Coffee run complete - and took the scenic route!'',
        ''Stretched my legs while grabbing caffeine.'',
        ''Best part? Chatted with colleagues along the way.'',
        ''Coffee acquired. Energy restored.'']
       during_sleep raw1 raw2 raw3"

definition urgent_call :: "agent \<Rightarrow> action list \<Rightarrow> nat \<Rightarrow> nat \<Rightarrow> nat \<Rightarrow> tool_result" where
  "urgent_call s during_sleep raw1 raw2 raw3 =
     execute_break_tool s ''urgent_call'' 20 40
       ''Took an urgent call outside''
       [''Sorry, had to take this urgent call... (went for a walk)'',
        ''Very important call. Very important break.'',
        ''Escaped to the outdoors for a 'crucial' conversation.'',
        ''Fresh air + fake urgency = perfect combo.'']
       during_sleep raw1 raw2 raw3"

definition deep_thinking :: "agent \<Rightarrow> action list \<Rightarrow> nat \<Rightarrow> nat \<Rightarrow> nat \<Rightarrow> tool_result" where
  "deep_thinking s during_sleep raw1 raw2 raw3 =
     execute_break_tool s ''deep_thinking'' 5 15
       ''Engaged in deep thinking''
       [''Staring into the void... I mean, thinking deeply.'',
        ''Looking contemplative. Actually just zoning out.'',
        ''Deep thoughts mode: activated. (Mind: blank)'',
        ''Appeared busy while mentally checking out.'']
       during_sleep raw1 raw2 raw3"

definition email_organizing :: "agent \<Rightarrow> action list \<Rightarrow> nat \<Rightarrow> nat \<Rightarrow> nat \<Rightarrow> tool_result" where
  "email_organizing s during_sleep raw1 raw2 raw3 =
     execute_break_tool s ''email_organizing'' 10 25
       ''Organized emails (and browsed online)''
       [''Organizing emails... and my shopping cart.'',
        ''Inbox zero achieved! (Plus some online shopping)'',
        ''Very busy with 'administrative tasks'.'',
        ''Email management is important. So is browsing.'']
       during_sleep raw1 raw2 raw3"

text \<open>
  A history of the process: calls of the executor, one after the other, with steps of
  the background tasks between them.
\<close>

datatype event =
    Invoke string int int string "string list" "action list" nat nat nat
  | Background action

fun step_event :: "agent \<Rightarrow> event \<Rightarrow> agent \<times> effect list" where
  "step_event s (Invoke tool lo hi summary msgs during_sleep raw1 raw2 raw3) =
     snd (execute_break_tool s tool lo hi summary msgs during_sleep raw1 raw2 raw3)"
| "step_event s (Background a) = (apply_action s a, [])"

fun run_events :: "agent \<Rightarrow> event list \<Rightarrow> agent \<times> effect list" where
  "run_events s [] = (s, [])"
| "run_events s (e # es) =
     (case step_event s e of (s', fx) \<Rightarrow>
      (case run_events s' es of (s'', fx') \<Rightarrow> (s'', fx @ fx')))"

fun is_sleep :: "effect \<Rightarrow> bool" where
  "is_sleep (Sleep n) = True"
| "is_sleep (Print t) = False"

subsection \<open>Start-up\<close>

text \<open>
  \<^verbatim>\<open>parse_arguments\<close>, from the point where argparse has produced the namespace:
  \<^verbatim>\<open>parser.error\<close> prints the message and exits the process. The main block then builds
  the state manager from the two values, in server mode through
  \<^verbatim>\<open>initialize_state_manager\<close> and otherwise in \<^verbatim>\<open>run_interactive_mode\<close>.
\<close>

record args =
  arg_boss_alertness :: int
  arg_boss_alertness_cooldown :: int
  arg_server :: bool

definition parse_arguments :: "args \<Rightarrow> error + args" where
  "parse_arguments a =
     (if \<not> (0 \<le> arg_boss_alertness a \<and> arg_boss_alertness a \<le> 100)
      then Inl (ArgumentError ''--boss_alertness must be between 0 and 100'')
      else if arg_boss_alertness_cooldown a \<le> 0
      then Inl (ArgumentError ''--boss_alertness_cooldown must be positive'')
      else Inr a)"

definition main_state_manager :: "args \<Rightarrow> error + agent" where
  "main_state_manager parsed =
     (case parse_arguments parsed of
        Inl e \<Rightarrow> Inl e
      | Inr a \<Rightarrow>
          Inr (AgentStateManager_init (arg_boss_alertness a) (arg_boss_alertness_cooldown a)))"

subsection \<open>Lines of a text\<close>

text \<open>The pieces of a text between its newline characters, as \<^verbatim>\<open>text.split("\n")\<close> gives.\<close>

fun lines_of :: "string \<Rightarrow> string list" where
  "lines_of [] = [[]]"
| "lines_of (c # cs) =
     (if c = newline then [] # lines_of cs
      else (case lines_of cs of
              [] \<Rightarrow> [[c]]
            | l # ls \<Rightarrow> (c # l) # ls))"

subsection \<open>Facts about the random source\<close>

lemma randint_range:
  assumes "randint a b raw = Inr r"
  shows "a \<le> r \<and> r \<le> b"
proof -
  from assms have ab: "a \<le> b" and r: "r = a + int (raw mod nat (b - a + 1))"
    by (auto simp: randint_def split: if_splits)
  from ab have pos: "0 < nat (b - a + 1)" by simp
  have "raw mod nat (b - a + 1) < nat (b - a + 1)"
    using pos by (rule mod_less_divisor)
  with ab r show ?thesis by linarith
qed

lemma randint_total:
  "a \<le> b \<Longrightarrow> randint a b raw = Inr (a + int (raw mod nat (b - a + 1)))"
  by (simp add: randint_def)

lemma randint_empty: "b < a \<Longrightarrow> randint a b raw = Inl ValueError"
  by (simp add: randint_def)

lemma randint_onto:
  assumes "a \<le> r" and "r \<le> b"
  shows "randint a b (nat (r - a)) = Inr r"
proof -
  from assms have "nat (r - a) < nat (b - a + 1)" by linarith
  then have "nat (r - a) mod nat (b - a + 1) = nat (r - a)" by simp
  with assms show ?thesis by (simp add: randint_def)
qed

lemma roll_draw:
  "randint 1 100 raw = Inr (1 + int (raw mod 100))"
  by (simp add: randint_def)

subsection \<open>The timers\<close>

text \<open>
  Claim C8. On a state whose gauges are in their domains, one pass of the alert-cooldown
  timer lowers the alert level by exactly 1 when it is positive and leaves it at 0
  otherwise, which is \<open>max 0 (alert - 1)\<close>; one pass of the stress-drift timer raises the
  stress by exactly 1 when it is below 100 and leaves it at 100 otherwise, which is
  \<open>min 100 (stress + 1)\<close>. Each timer leaves the other gauge alone.
\<close>

theorem timer_ticks:
  assumes "gauges_in_bounds s"
  shows "boss_alert_level (auto_decrease_boss_alert s) =
           (if boss_alert_level s > 0 then boss_alert_level s - 1 else 0)
       \<and> boss_alert_level (auto_decrease_boss_alert s) = max 0 (boss_alert_level s - 1)
       \<and> stress_level (auto_decrease_boss_alert s) = stress_level s
       \<and> stress_level (auto_increase_stress s) =
           (if stress_level s < 100 then stress_level s + 1 else 100)
       \<and> stress_level (auto_increase_stress s) = min 100 (stress_level s + 1)
       \<and> boss_alert_level (auto_increase_stress s) = boss_alert_level s"
  using assms
  by (simp add: gauges_in_bounds_def auto_decrease_boss_alert_def auto_increase_stress_def)

theorem timer_ticks_witness:
  "gauges_in_bounds (AgentStateManager_init 50 300)
   \<and> boss_alert_level (auto_decrease_boss_alert (AgentStateManager_init 50 300)) = 0
   \<and> stress_level (auto_increase_stress (AgentStateManager_init 50 300)) = 51"
proof -
  have h: "gauges_in_bounds (AgentStateManager_init 50 300)"
    by (simp add: gauges_in_bounds_def AgentStateManager_init_def)
  show ?thesis
    using h timer_ticks [OF h] by (simp add: AgentStateManager_init_def)
qed

subsection \<open>Stress reduction\<close>

text \<open>
  Claim C4. For \<open>0 \<le> lo \<le> hi\<close>, \<^verbatim>\<open>reduce_stress\<close> returns the draw \<open>r\<close> that \<^verbatim>\<open>randint\<close>
  made, \<open>r\<close> lies in \<open>[lo, hi]\<close>, and the new stress is \<open>max 0 (s - r)\<close>: the value
  returned is the nominal draw, also where the clamp at 0 makes the gauge drop by less.
  Every value of the range is drawn for some entropy (\<open>randint_onto\<close>).
\<close>

theorem reduce_stress_nominal:
  assumes "0 \<le> lo" and "lo \<le> hi"
  shows "\<exists>r. randint lo hi raw = Inr r \<and> lo \<le> r \<and> r \<le> hi
           \<and> reduce_stress s lo hi raw =
               Inr (r, s\<lparr>stress_level := max 0 (stress_level s - r)\<rparr>)"
proof -
  from assms(2) obtain r where r: "randint lo hi raw = Inr r"
    by (auto simp: randint_total)
  with randint_range [OF r] show ?thesis
    by (auto simp: reduce_stress_def)
qed

theorem reduce_stress_nominal_witness:
  "(0::int) \<le> 10 \<and> (10::int) \<le> 30
   \<and> reduce_stress \<lparr>stress_level = 5, boss_alert_level = 0, boss_alertness = 50,
                     boss_alertness_cooldown = 300\<rparr> 10 30 7
       = Inr (17, \<lparr>stress_level = 0, boss_alert_level = 0, boss_alertness = 50,
                    boss_alertness_cooldown = 300\<rparr>)"
proof -
  have h1: "(0::int) \<le> 10" and h2: "(10::int) \<le> 30" by simp_all
  show ?thesis
    using reduce_stress_nominal [OF h1 h2, of 7
        "\<lparr>stress_level = 5, boss_alert_level = 0, boss_alertness = 50,
          boss_alertness_cooldown = 300\<rparr>"]
    by (simp add: randint_def)
qed

text \<open>
  Claim C7. With \<open>hi < lo\<close> the draw raises \<^verbatim>\<open>ValueError\<close> before the gauge is written:
  \<^verbatim>\<open>reduce_stress\<close> returns the error, the record is as it was, and an executor call with
  such a range raises the same error with the record as the penalty gate left it.
\<close>

theorem reduce_stress_empty_range:
  assumes "hi < lo"
  shows "reduce_stress s lo hi raw = Inl ValueError
       \<and> apply_action s (ReduceStress lo hi raw) = s
       \<and> execute_break_tool s tool lo hi summary msgs during_sleep raw raw2 raw3
           = (Inl ValueError, apply_boss_penalty_if_needed s during_sleep)"
proof -
  have e: "reduce_stress t lo hi raw = Inl ValueError" for t
    using assms by (simp add: reduce_stress_def randint_empty)
  show ?thesis
    by (simp add: e execute_break_tool_def split: prod.splits)
qed

theorem reduce_stress_empty_range_witness:
  "(20::int) < 30
   \<and> reduce_stress (AgentStateManager_init 50 300) 30 20 3 = Inl ValueError
   \<and> execute_break_tool (AgentStateManager_init 50 300) ''t'' 30 20 ''s'' [''m''] [] 3 4 5
       = (Inl ValueError, AgentStateManager_init 50 300, [])"
proof -
  have h: "(20::int) < 30" by simp
  show ?thesis
    using reduce_stress_empty_range [OF h, of "AgentStateManager_init 50 300" 3 "''t''" "''s''" "[''m'']" "[]" 4 5]
    by (simp add: apply_boss_penalty_if_needed_def AgentStateManager_init_def)
qed

subsection \<open>The alert roll\<close>

text \<open>
  Claim C3. With the configured probability in \<open>[0, 100]\<close>, \<^verbatim>\<open>maybe_increase_boss_alert\<close>
  takes one draw of \<open>[1, 100]\<close>. When the draw is at most the probability and the alert
  level is below 5, the level goes up by exactly 1 and the result is true. In every other
  case, an alert level of 5 with a successful draw among them, the record is unchanged
  and the result is false. A level of at most 5 is never taken past 5.
\<close>

theorem maybe_increase_boss_alert_roll:
  assumes "0 \<le> boss_alertness s" and "boss_alertness s \<le> 100"
  shows "\<exists>draw. randint 1 100 raw = Inr draw \<and> 1 \<le> draw \<and> draw \<le> 100
           \<and> maybe_increase_boss_alert s raw =
               (if draw \<le> boss_alertness s \<and> boss_alert_level s < 5
                then Inr (True, s\<lparr>boss_alert_level := boss_alert_level s + 1\<rparr>)
                else Inr (False, s))
           \<and> (boss_alert_level s = 5 \<longrightarrow> maybe_increase_boss_alert s raw = Inr (False, s))
           \<and> (boss_alert_level s \<le> 5 \<longrightarrow>
                (\<forall>b s'. maybe_increase_boss_alert s raw = Inr (b, s')
                   \<longrightarrow> boss_alert_level s' \<le> 5))"
proof -
  have r: "randint 1 100 raw = Inr (1 + int (raw mod 100))" by (rule roll_draw)
  have rng: "1 \<le> 1 + int (raw mod 100) \<and> 1 + int (raw mod 100) \<le> 100"
    using randint_range [OF r] .
  show ?thesis
    using r rng by (auto simp: maybe_increase_boss_alert_def)
qed

theorem maybe_increase_boss_alert_roll_witness:
  "(0::int) \<le> 100 \<and> (100::int) \<le> 100
   \<and> maybe_increase_boss_alert \<lparr>stress_level = 50, boss_alert_level = 4, boss_alertness = 100,
                     boss_alertness_cooldown = 300\<rparr> 41
       = Inr (True, \<lparr>stress_level = 50, boss_alert_level = 5, boss_alertness = 100,
                    boss_alertness_cooldown = 300\<rparr>)
   \<and> maybe_increase_boss_alert \<lparr>stress_level = 50, boss_alert_level = 5, boss_alertness = 100,
                     boss_alertness_cooldown = 300\<rparr> 41
       = Inr (False, \<lparr>stress_level = 50, boss_alert_level = 5, boss_alertness = 100,
                    boss_alertness_cooldown = 300\<rparr>)"
  using maybe_increase_boss_alert_roll [of
        "\<lparr>stress_level = 50, boss_alert_level = 4, boss_alertness = 100,
          boss_alertness_cooldown = 300\<rparr>" 41]
     maybe_increase_boss_alert_roll [of
        "\<lparr>stress_level = 50, boss_alert_level = 5, boss_alertness = 100,
          boss_alertness_cooldown = 300\<rparr>" 41]
  by (simp add: randint_def)

subsection \<open>Configuration\<close>

text \<open>
  Claim C2, as the specification states it, is about constructing the state: the
  constructor checks nothing. It builds the record from an alertness of 150 and a
  cooldown of 0.
\<close>

theorem constructor_unchecked_counterexample:
  "\<not> (0 \<le> (150::int) \<and> (150::int) \<le> 100) \<and> (0::int) \<le> 0
   \<and> AgentStateManager_init 150 0 =
       \<lparr> stress_level = 50, boss_alert_level = 0, boss_alertness = 150,
         boss_alertness_cooldown = 0 \<rparr>"
  by (simp add: AgentStateManager_init_def)

text \<open>
  Claim C2, amended. The check is made on the command line, before any state exists:
  for an alertness outside \<open>[0, 100]\<close> or a cooldown that is not positive,
  \<^verbatim>\<open>parse_arguments\<close> ends the process with an argument error and start-up builds no state
  manager.
\<close>

theorem parse_arguments_rejects:
  assumes "arg_boss_alertness a < 0 \<or> arg_boss_alertness a > 100
           \<or> arg_boss_alertness_cooldown a \<le> 0"
  shows "\<exists>msg. parse_arguments a = Inl (ArgumentError msg)
             \<and> main_state_manager a = Inl (ArgumentError msg)"
  using assms by (auto simp: parse_arguments_def main_state_manager_def)

theorem parse_arguments_rejects_witness:
  "(arg_boss_alertness \<lparr>arg_boss_alertness = 150, arg_boss_alertness_cooldown = 300, arg_server = False\<rparr> > 100)
   \<and> main_state_manager \<lparr>arg_boss_alertness = 150, arg_boss_alertness_cooldown = 300, arg_server = False\<rparr>
        = Inl (ArgumentError ''--boss_alertness must be between 0 and 100'')"
  using parse_arguments_rejects [of "\<lparr>arg_boss_alertness = 150, arg_boss_alertness_cooldown = 300, arg_server = False\<rparr>"]
  by (simp add: parse_arguments_def)

subsection \<open>The gauges stay in their domains\<close>

lemma auto_increase_stress_bounds:
  "gauges_in_bounds s \<Longrightarrow> gauges_in_bounds (auto_increase_stress s)"
  by (simp add: gauges_in_bounds_def auto_increase_stress_def)

lemma auto_decrease_boss_alert_bounds:
  "gauges_in_bounds s \<Longrightarrow> gauges_in_bounds (auto_decrease_boss_alert s)"
  by (simp add: gauges_in_bounds_def auto_decrease_boss_alert_def)

lemma reduce_stress_bounds:
  assumes "gauges_in_bounds s" and "0 \<le> lo"
    and "reduce_stress s lo hi raw = Inr (r, s')"
  shows "gauges_in_bounds s'"
proof -
  from assms(3) have r: "randint lo hi raw = Inr r"
    and s': "s' = s\<lparr>stress_level := max 0 (stress_level s - r)\<rparr>"
    by (auto simp: reduce_stress_def split: sum.splits)
  from randint_range [OF r] assms(2) have "0 \<le> r" by simp
  with assms(1) s' show ?thesis
    by (simp add: gauges_in_bounds_def)
qed

lemma maybe_increase_boss_alert_bounds:
  assumes "gauges_in_bounds s"
    and "maybe_increase_boss_alert s raw = Inr (b, s')"
  shows "gauges_in_bounds s'"
  using assms
  by (auto simp: maybe_increase_boss_alert_def gauges_in_bounds_def
           split: sum.splits if_splits)

lemma apply_action_bounds:
  assumes "gauges_in_bounds s" and "reduction_range_ok a"
  shows "gauges_in_bounds (apply_action s a)"
proof (cases a)
  case StressTick
  with assms show ?thesis by (simp add: auto_increase_stress_bounds)
next
  case CooldownTick
  with assms show ?thesis by (simp add: auto_decrease_boss_alert_bounds)
next
  case (ReduceStress lo hi raw)
  with assms show ?thesis
    by (auto split: sum.splits intro: reduce_stress_bounds)
next
  case (AlertRoll raw)
  with assms show ?thesis
    by (auto split: sum.splits intro: maybe_increase_boss_alert_bounds)
next
  case Snapshot
  with assms show ?thesis by simp
qed

lemma run_actions_bounds:
  "gauges_in_bounds s \<Longrightarrow> list_all reduction_range_ok acts
     \<Longrightarrow> gauges_in_bounds (run_actions s acts)"
  by (induction acts arbitrary: s) (simp_all add: apply_action_bounds)

lemma init_bounds: "gauges_in_bounds (AgentStateManager_init alertness cooldown)"
  by (simp add: gauges_in_bounds_def AgentStateManager_init_def)

text \<open>
  Claim C5. From the initial state (stress 50, alert level 0), after every step of every
  sequence of stress reductions with \<open>0 \<le> min \<le> max\<close>, alert rolls, snapshots, stress-drift
  ticks and alert-cooldown ticks, the stress is in \<open>[0, 100]\<close> and the alert level in
  \<open>[0, 5]\<close>: the bounds hold on the state reached by each prefix of the sequence.
\<close>

theorem gauges_stay_in_bounds:
  assumes "list_all reduction_range_ok acts" and "k \<le> length acts"
  shows "gauges_in_bounds (run_actions (AgentStateManager_init alertness cooldown) (take k acts))"
proof -
  from assms(1) have "list_all reduction_range_ok (take k acts)"
    by (auto simp: list_all_iff dest: in_set_takeD)
  with init_bounds show ?thesis by (rule run_actions_bounds)
qed

theorem gauges_stay_in_bounds_witness:
  "list_all reduction_range_ok
      [ReduceStress 20 40 3, AlertRoll 0, ReduceStress 20 40 19, StressTick, Snapshot, CooldownTick]
   \<and> (6::nat) \<le> length
      [ReduceStress 20 40 3, AlertRoll 0, ReduceStress 20 40 19, StressTick, Snapshot, CooldownTick]
   \<and> run_actions (AgentStateManager_init 100 300)
        [ReduceStress 20 40 3, AlertRoll 0, ReduceStress 20 40 19, StressTick, Snapshot, CooldownTick]
       = \<lparr>stress_level = 1, boss_alert_level = 0, boss_alertness = 100,
          boss_alertness_cooldown = 300\<rparr>
   \<and> gauges_in_bounds (run_actions (AgentStateManager_init 100 300)
        [ReduceStress 20 40 3, AlertRoll 0, ReduceStress 20 40 19, StressTick, Snapshot, CooldownTick])"
proof -
  let ?acts = "[ReduceStress 20 40 3, AlertRoll 0, ReduceStress 20 40 19, StressTick, Snapshot, CooldownTick]"
  have h1: "list_all reduction_range_ok ?acts" by simp
  have h2: "(6::nat) \<le> length ?acts" by simp
  have run: "run_actions (AgentStateManager_init 100 300) ?acts
       = \<lparr>stress_level = 1, boss_alert_level = 0, boss_alertness = 100,
          boss_alertness_cooldown = 300\<rparr>"
    by (simp add: AgentStateManager_init_def reduce_stress_def randint_def
          maybe_increase_boss_alert_def auto_increase_stress_def auto_decrease_boss_alert_def)
  from gauges_stay_in_bounds [OF h1 h2, of 100 300]
  have "gauges_in_bounds (run_actions (AgentStateManager_init 100 300) ?acts)" by simp
  with h1 h2 run show ?thesis by simp
qed

subsection \<open>The executor, step by step\<close>

lemma reduce_stress_returns:
  "lo \<le> hi \<Longrightarrow> \<exists>r s'. reduce_stress s lo hi raw = Inr (r, s')"
  by (simp add: reduce_stress_def randint_total)

lemma maybe_increase_boss_alert_returns:
  "\<exists>b s'. maybe_increase_boss_alert s raw = Inr (b, s')"
  by (auto simp: maybe_increase_boss_alert_def roll_draw)

lemma choice_returns:
  "xs \<noteq> [] \<Longrightarrow> \<exists>x. choice xs raw = Inr x \<and> x \<in> set xs"
  by (simp add: choice_def)

lemma execute_break_tool_steps:
  assumes "apply_boss_penalty_if_needed s during_sleep = (s1, fx)"
    and "reduce_stress s1 lo hi raw1 = Inr (r, s2)"
    and "maybe_increase_boss_alert s2 raw2 = Inr (b, s3)"
    and "choice msgs raw3 = Inr msg"
  shows "execute_break_tool s tool lo hi summary msgs during_sleep raw1 raw2 raw3 =
           (Inr (format_response summary
                   (if b then msg @ '' (Your boss seems to have noticed...)'' else msg)
                   (stress_level s3) (boss_alert_level s3)),
            s3,
            fx @ [Print (''[BREAK-TOOL: '' @ tool @ ''] Stress Level: ''
                         @ str_int (stress_level s3) @ ''/100, Boss Alert Level: ''
                         @ str_int (boss_alert_level s3) @ ''/5'')])"
  using assms by (simp add: execute_break_tool_def get_state_def Let_def)

lemma penalty_sleeps:
  "filter is_sleep (snd (apply_boss_penalty_if_needed s during_sleep)) =
     (if boss_alert_level s \<ge> 5 then [Sleep 20] else [])"
  by (simp add: apply_boss_penalty_if_needed_def)

lemma execute_break_tool_sleeps:
  "filter is_sleep (snd (snd (execute_break_tool s tool lo hi summary msgs during_sleep raw1 raw2 raw3)))
     = (if boss_alert_level s \<ge> 5 then [Sleep 20] else [])"
  using penalty_sleeps [of s during_sleep]
  by (auto simp: execute_break_tool_def Let_def split: prod.splits sum.splits)

lemma str_int_small:
  "str_int 0 = ''0''" "str_int 4 = ''4''" "str_int 5 = ''5''" "str_int 40 = ''40''"
  by (simp_all add: str_int_def str_nat.simps digit_char_def)

lemma reduce_stress_raises:
  "hi < lo \<Longrightarrow> reduce_stress s lo hi raw = Inl ValueError"
  by (simp add: reduce_stress_def randint_empty)

lemma execute_break_tool_empty_range:
  assumes "apply_boss_penalty_if_needed s during_sleep = (s1, fx)" and "hi < lo"
  shows "execute_break_tool s tool lo hi summary msgs during_sleep raw1 raw2 raw3
           = (Inl ValueError, s1, fx)"
  using assms by (simp add: execute_break_tool_def reduce_stress_raises)

lemma execute_break_tool_no_text:
  assumes "apply_boss_penalty_if_needed s during_sleep = (s1, fx)"
    and "reduce_stress s1 lo hi raw1 = Inr (r, s2)"
    and "maybe_increase_boss_alert s2 raw2 = Inr (b, s3)"
  shows "execute_break_tool s tool lo hi summary [] during_sleep raw1 raw2 raw3
           = (Inl IndexError, s3, fx)"
  using assms by (simp add: execute_break_tool_def choice_def Let_def)

text \<open>
  Claim C6. On a state whose alert level is at most 5, a call of the executor sleeps the
  20 seconds exactly once when the alert level is 5 at entry and not at all otherwise,
  whatever the other tasks do to the record during the sleep: the level is read once and
  not again. The steps then run in the order of the code, on every path. The stress
  reduction takes the first draw and works on the record as the sleep left it. When its
  range is empty the call ends there, with the record as the sleep left it: no alert
  roll has been made. Otherwise the alert roll takes the second draw and works on the
  result of the reduction. When the list of texts is empty the call ends after the roll,
  with both changes in place. Otherwise the snapshot is of the result of the roll, the
  text returned and the line logged render it, and the effects of the penalty come
  before the logged line.
\<close>

theorem penalty_gate_once_at_entry:
  assumes "boss_alert_level s \<le> 5"
  shows "filter is_sleep
           (snd (snd (execute_break_tool s tool lo hi summary msgs during_sleep raw1 raw2 raw3)))
           = (if boss_alert_level s = 5 then [Sleep 20] else [])
       \<and> (hi < lo \<longrightarrow>
            execute_break_tool s tool lo hi summary msgs during_sleep raw1 raw2 raw3
              = (Inl ValueError,
                 (if boss_alert_level s = 5 then run_actions s during_sleep else s),
                 snd (apply_boss_penalty_if_needed s during_sleep)))
       \<and> (lo \<le> hi \<and> msgs = [] \<longrightarrow>
            (\<exists>r s2 b s3.
               reduce_stress (if boss_alert_level s = 5 then run_actions s during_sleep else s)
                 lo hi raw1 = Inr (r, s2)
             \<and> maybe_increase_boss_alert s2 raw2 = Inr (b, s3)
             \<and> execute_break_tool s tool lo hi summary msgs during_sleep raw1 raw2 raw3
                 = (Inl IndexError, s3, snd (apply_boss_penalty_if_needed s during_sleep))))
       \<and> (lo \<le> hi \<and> msgs \<noteq> [] \<longrightarrow>
            (\<exists>r s2 b s3.
               reduce_stress (if boss_alert_level s = 5 then run_actions s during_sleep else s)
                 lo hi raw1 = Inr (r, s2)
             \<and> maybe_increase_boss_alert s2 raw2 = Inr (b, s3)
             \<and> get_state s3 = \<lparr>dict_stress_level = stress_level s3,
                                dict_boss_alert_level = boss_alert_level s3\<rparr>
             \<and> execute_break_tool s tool lo hi summary msgs during_sleep raw1 raw2 raw3
                 = (Inr (format_response summary
                          (if b then (msgs ! (raw3 mod length msgs))
                                     @ '' (Your boss seems to have noticed...)''
                           else msgs ! (raw3 mod length msgs))
                          (stress_level s3) (boss_alert_level s3)),
                    s3,
                    snd (apply_boss_penalty_if_needed s during_sleep)
                    @ [Print (''[BREAK-TOOL: '' @ tool @ ''] Stress Level: ''
                              @ str_int (stress_level s3) @ ''/100, Boss Alert Level: ''
                              @ str_int (boss_alert_level s3) @ ''/5'')])))"
proof -
  define s1 where "s1 = (if boss_alert_level s = 5 then run_actions s during_sleep else s)"
  define fx where "fx = snd (apply_boss_penalty_if_needed s during_sleep)"
  have pen: "apply_boss_penalty_if_needed s during_sleep = (s1, fx)"
    using assms by (simp add: s1_def fx_def apply_boss_penalty_if_needed_def)
  have sleeps: "filter is_sleep
           (snd (snd (execute_break_tool s tool lo hi summary msgs during_sleep raw1 raw2 raw3)))
           = (if boss_alert_level s = 5 then [Sleep 20] else [])"
    using assms by (simp add: execute_break_tool_sleeps)
  have empty: "execute_break_tool s tool lo hi summary msgs during_sleep raw1 raw2 raw3
                 = (Inl ValueError, s1, fx)" if "hi < lo"
    using pen that by (rule execute_break_tool_empty_range)
  have steps: "\<exists>r s2 b s3.
               reduce_stress s1 lo hi raw1 = Inr (r, s2)
             \<and> maybe_increase_boss_alert s2 raw2 = Inr (b, s3)
             \<and> execute_break_tool s tool lo hi summary msgs during_sleep raw1 raw2 raw3
                 = (Inl IndexError, s3, fx)" if ok: "lo \<le> hi \<and> msgs = []"
  proof -
    from ok obtain r s2 where red: "reduce_stress s1 lo hi raw1 = Inr (r, s2)"
      using reduce_stress_returns by blast
    obtain b s3 where roll: "maybe_increase_boss_alert s2 raw2 = Inr (b, s3)"
      using maybe_increase_boss_alert_returns by blast
    from execute_break_tool_no_text [OF pen red roll, of tool summary raw3] ok red roll
    show ?thesis by blast
  qed
  have full: "\<exists>r s2 b s3.
               reduce_stress s1 lo hi raw1 = Inr (r, s2)
             \<and> maybe_increase_boss_alert s2 raw2 = Inr (b, s3)
             \<and> get_state s3 = \<lparr>dict_stress_level = stress_level s3,
                                dict_boss_alert_level = boss_alert_level s3\<rparr>
             \<and> execute_break_tool s tool lo hi summary msgs during_sleep raw1 raw2 raw3
                 = (Inr (format_response summary
                          (if b then (msgs ! (raw3 mod length msgs))
                                     @ '' (Your boss seems to have noticed...)''
                           else msgs ! (raw3 mod length msgs))
                          (stress_level s3) (boss_alert_level s3)),
                    s3,
                    fx @ [Print (''[BREAK-TOOL: '' @ tool @ ''] Stress Level: ''
                              @ str_int (stress_level s3) @ ''/100, Boss Alert Level: ''
                              @ str_int (boss_alert_level s3) @ ''/5'')])"
    if ok: "lo \<le> hi \<and> msgs \<noteq> []"
  proof -
    from ok obtain r s2 where red: "reduce_stress s1 lo hi raw1 = Inr (r, s2)"
      using reduce_stress_returns by blast
    obtain b s3 where roll: "maybe_increase_boss_alert s2 raw2 = Inr (b, s3)"
      using maybe_increase_boss_alert_returns by blast
    from ok have ch: "choice msgs raw3 = Inr (msgs ! (raw3 mod length msgs))"
      by (simp add: choice_def)
    have snap: "get_state s3 = \<lparr>dict_stress_level = stress_level s3,
                                dict_boss_alert_level = boss_alert_level s3\<rparr>"
      by (simp add: get_state_def)
    from execute_break_tool_steps [OF pen red roll ch, of tool summary] red roll snap
    show ?thesis by blast
  qed
  from sleeps empty steps full show ?thesis
    unfolding s1_def fx_def by blast
qed

theorem penalty_gate_once_at_entry_witness:
  "(boss_alert_level \<lparr>stress_level = 50, boss_alert_level = 5, boss_alertness = 100,
                      boss_alertness_cooldown = 300\<rparr> \<le> 5
   \<and> ((10::int) \<le> 30 \<and> [''Just needed a quick breather to reset.''] \<noteq> [])
   \<and> run_actions \<lparr>stress_level = 50, boss_alert_level = 5, boss_alertness = 100,
                      boss_alertness_cooldown = 300\<rparr> [CooldownTick]
       = \<lparr>stress_level = 50, boss_alert_level = 4, boss_alertness = 100,
                      boss_alertness_cooldown = 300\<rparr>
   \<and> execute_break_tool
        \<lparr>stress_level = 50, boss_alert_level = 5, boss_alertness = 100,
          boss_alertness_cooldown = 300\<rparr>
        ''take_a_break'' 10 30 ''Took a brief general break''
        [''Just needed a quick breather to reset.''] [CooldownTick] 0 0 0
      = (Inr [\<lparr>content_type = ''text'',
                content_text =
                  ''Just needed a quick breather to reset. (Your boss seems to have noticed...)''
                  @ [newline, newline] @ ''Break Summary: Took a brief general break''
                  @ [newline] @ ''Stress Level: 40''
                  @ [newline] @ ''Boss Alert Level: 5''\<rparr>],
         \<lparr>stress_level = 40, boss_alert_level = 5, boss_alertness = 100,
          boss_alertness_cooldown = 300\<rparr>,
         [Print ''[BOSS-PENALTY] Applying 20s delay - Boss Alert Level is at MAXIMUM (5/5)'',
          Sleep 20,
          Print ''[BOSS-PENALTY] 20s delay completed'',
          Print ''[BREAK-TOOL: take_a_break] Stress Level: 40/100, Boss Alert Level: 5/5'']))
   \<and> (boss_alert_level (AgentStateManager_init 100 300) \<le> 5
      \<and> (20::int) < 30
      \<and> execute_break_tool (AgentStateManager_init 100 300)
           ''take_a_break'' 30 20 ''Took a brief general break''
           [''Just needed a quick breather to reset.''] [] 0 0 0
         = (Inl ValueError,
            \<lparr>stress_level = 50, boss_alert_level = 0, boss_alertness = 100,
              boss_alertness_cooldown = 300\<rparr>,
            []))
   \<and> (((10::int) \<le> 30 \<and> ([]::string list) = [])
      \<and> execute_break_tool (AgentStateManager_init 100 300)
           ''take_a_break'' 10 30 ''Took a brief general break'' [] [] 0 0 0
         = (Inl IndexError,
            \<lparr>stress_level = 40, boss_alert_level = 1, boss_alertness = 100,
              boss_alertness_cooldown = 300\<rparr>,
            []))"
  using penalty_gate_once_at_entry [of
        "\<lparr>stress_level = 50, boss_alert_level = 5, boss_alertness = 100,
          boss_alertness_cooldown = 300\<rparr>"
        "''take_a_break''" 10 30 "''Took a brief general break''"
        "[''Just needed a quick breather to reset.'']" "[CooldownTick]" 0 0 0]
      penalty_gate_once_at_entry [of "AgentStateManager_init 100 300"
        "''take_a_break''" 30 20 "''Took a brief general break''"
        "[''Just needed a quick breather to reset.'']" "[]" 0 0 0]
      penalty_gate_once_at_entry [of "AgentStateManager_init 100 300"
        "''take_a_break''" 10 30 "''Took a brief general break''" "[]" "[]" 0 0 0]
  by (simp add: AgentStateManager_init_def execute_break_tool_def
        apply_boss_penalty_if_needed_def
        auto_decrease_boss_alert_def reduce_stress_def maybe_increase_boss_alert_def
        randint_def choice_def get_state_def format_response_def Let_def str_int_small)

subsection \<open>An alertness of zero\<close>

lemma roll_never_fires:
  "boss_alertness s \<le> 0 \<Longrightarrow> maybe_increase_boss_alert s raw = Inr (False, s)"
  by (simp add: maybe_increase_boss_alert_def roll_draw)

lemma reduce_stress_keeps_alert:
  "reduce_stress s lo hi raw = Inr (r, s')
     \<Longrightarrow> boss_alertness s' = boss_alertness s \<and> boss_alert_level s' = boss_alert_level s"
  by (auto simp: reduce_stress_def split: sum.splits)

lemma apply_action_unalert:
  assumes "boss_alertness s = 0" and "boss_alert_level s = 0"
  shows "boss_alertness (apply_action s a) = 0 \<and> boss_alert_level (apply_action s a) = 0"
proof (cases a)
  case StressTick
  with assms show ?thesis by (simp add: auto_increase_stress_def)
next
  case CooldownTick
  with assms show ?thesis by (simp add: auto_decrease_boss_alert_def)
next
  case (ReduceStress lo hi raw)
  with assms show ?thesis
    by (auto split: sum.splits dest: reduce_stress_keeps_alert)
next
  case (AlertRoll raw)
  with assms show ?thesis by (simp add: roll_never_fires)
next
  case Snapshot
  with assms show ?thesis by simp
qed

lemma execute_break_tool_unalert:
  assumes "boss_alertness s = 0" and "boss_alert_level s = 0"
    and "snd (execute_break_tool s tool lo hi summary msgs during_sleep raw1 raw2 raw3) = (s', fx)"
  shows "boss_alertness s' = 0 \<and> boss_alert_level s' = 0 \<and> filter is_sleep fx = []"
proof -
  have pen: "apply_boss_penalty_if_needed s during_sleep = (s, [])"
    using assms(2) by (simp add: apply_boss_penalty_if_needed_def)
  show ?thesis
  proof (cases "reduce_stress s lo hi raw1")
    case (Inl e)
    with pen assms show ?thesis by (simp add: execute_break_tool_def)
  next
    case (Inr p)
    then obtain r s2 where red: "reduce_stress s lo hi raw1 = Inr (r, s2)"
      by (cases p) simp
    from reduce_stress_keeps_alert [OF red] assms(1,2)
    have s2: "boss_alertness s2 = 0" "boss_alert_level s2 = 0" by simp_all
    then have roll: "maybe_increase_boss_alert s2 raw2 = Inr (False, s2)"
      by (simp add: roll_never_fires)
    show ?thesis
      using pen red roll s2 assms(3)
      by (auto simp: execute_break_tool_def Let_def split: sum.splits)
  qed
qed

lemma run_events_unalert:
  "boss_alertness s = 0 \<Longrightarrow> boss_alert_level s = 0 \<Longrightarrow> run_events s evs = (s', fx)
     \<Longrightarrow> boss_alertness s' = 0 \<and> boss_alert_level s' = 0 \<and> filter is_sleep fx = []"
proof (induction evs arbitrary: s s' fx)
  case Nil
  then show ?case by simp
next
  case (Cons e evs)
  obtain s1 fx1 where st: "step_event s e = (s1, fx1)" by (cases "step_event s e")
  obtain s2 fx2 where rest: "run_events s1 evs = (s2, fx2)" by (cases "run_events s1 evs")
  have one: "boss_alertness s1 = 0 \<and> boss_alert_level s1 = 0 \<and> filter is_sleep fx1 = []"
  proof (cases e)
    case (Invoke tool lo hi summary msgs during_sleep raw1 raw2 raw3)
    with st have "snd (execute_break_tool s tool lo hi summary msgs during_sleep raw1 raw2 raw3)
                    = (s1, fx1)" by simp
    from execute_break_tool_unalert [OF Cons.prems(1,2) this] show ?thesis .
  next
    case (Background a)
    with st apply_action_unalert [OF Cons.prems(1,2), of a] show ?thesis by auto
  qed
  then have "boss_alertness s2 = 0 \<and> boss_alert_level s2 = 0 \<and> filter is_sleep fx2 = []"
    using Cons.IH [OF _ _ rest] by simp
  with one st rest Cons.prems(3) show ?case by auto
qed

text \<open>
  Claim C9. When the state is constructed with an alertness of 0, then after every
  number of executor calls, with any steps of the timers and of other callers between
  them, the alert level is 0 and no call has slept: the penalty never fires. This holds
  for the state reached by each prefix of the history.
\<close>

theorem zero_alertness_never_alerts:
  "boss_alert_level (fst (run_events (AgentStateManager_init 0 cooldown) (take k evs))) = 0
   \<and> filter is_sleep (snd (run_events (AgentStateManager_init 0 cooldown) (take k evs))) = []"
proof -
  obtain s' fx where r: "run_events (AgentStateManager_init 0 cooldown) (take k evs) = (s', fx)"
    by (cases "run_events (AgentStateManager_init 0 cooldown) (take k evs)")
  have "boss_alertness (AgentStateManager_init 0 cooldown) = 0"
    and "boss_alert_level (AgentStateManager_init 0 cooldown) = 0"
    by (simp_all add: AgentStateManager_init_def)
  from run_events_unalert [OF this r] r show ?thesis by simp
qed

theorem zero_alertness_never_alerts_witness:
  "fst (run_events (AgentStateManager_init 0 300)
     (take 3 [Invoke ''show_meme'' 5 20 ''Browsed memes for quick mental refresh''
                [''Meme break: short but effective.''] [] 0 0 0,
              Background CooldownTick,
              Background (AlertRoll 0)]))
     = \<lparr>stress_level = 45, boss_alert_level = 0, boss_alertness = 0,
        boss_alertness_cooldown = 300\<rparr>
   \<and> filter is_sleep (snd (run_events (AgentStateManager_init 0 300)
     (take 3 [Invoke ''show_meme'' 5 20 ''Browsed memes for quick mental refresh''
                [''Meme break: short but effective.''] [] 0 0 0,
              Background CooldownTick,
              Background (AlertRoll 0)]))) = []"
  using zero_alertness_never_alerts [of 300 3
          "[Invoke ''show_meme'' 5 20 ''Browsed memes for quick mental refresh''
                [''Meme break: short but effective.''] [] 0 0 0,
              Background CooldownTick,
              Background (AlertRoll 0)]"]
  by (simp add: AgentStateManager_init_def execute_break_tool_def
          apply_boss_penalty_if_needed_def reduce_stress_def maybe_increase_boss_alert_def
          auto_decrease_boss_alert_def
          randint_def choice_def get_state_def format_response_def Let_def)

subsection \<open>What the executor returns\<close>

text \<open>
  Claim C1, as the specification states it, makes the nominal reduction a part of the
  value returned and keeps the narrative text out of it. From a stress of 5 the draws 10
  and 30 of \<^verbatim>\<open>take_a_break\<close> both leave a stress of 0, and the two calls return the same
  value: the reduction cannot be read from it. The value is a list with one text item, and the
  text begins with the narrative sentence.
\<close>

theorem reduction_not_returned_counterexample:
  "reduce_stress \<lparr>stress_level = 5, boss_alert_level = 0, boss_alertness = 0,
                   boss_alertness_cooldown = 300\<rparr> 10 30 0
     = Inr (10, \<lparr>stress_level = 0, boss_alert_level = 0, boss_alertness = 0,
                  boss_alertness_cooldown = 300\<rparr>)
   \<and> reduce_stress \<lparr>stress_level = 5, boss_alert_level = 0, boss_alertness = 0,
                   boss_alertness_cooldown = 300\<rparr> 10 30 20
     = Inr (30, \<lparr>stress_level = 0, boss_alert_level = 0, boss_alertness = 0,
                  boss_alertness_cooldown = 300\<rparr>)
   \<and> fst (take_a_break
        \<lparr>stress_level = 5, boss_alert_level = 0, boss_alertness = 0,
          boss_alertness_cooldown = 300\<rparr> [] 0 0 2)
     = Inr [\<lparr>content_type = ''text'',
              content_text =
                ''Short break taken - feeling refreshed!''
                @ [newline, newline] @ ''Break Summary: Took a brief general break''
                @ [newline] @ ''Stress Level: 0''
                @ [newline] @ ''Boss Alert Level: 0''\<rparr>]
   \<and> fst (take_a_break
        \<lparr>stress_level = 5, boss_alert_level = 0, boss_alertness = 0,
          boss_alertness_cooldown = 300\<rparr> [] 20 0 2)
     = Inr [\<lparr>content_type = ''text'',
              content_text =
                ''Short break taken - feeling refreshed!''
                @ [newline, newline] @ ''Break Summary: Took a brief general break''
                @ [newline] @ ''Stress Level: 0''
                @ [newline] @ ''Boss Alert Level: 0''\<rparr>]"
  by (simp add: take_a_break_def execute_break_tool_def apply_boss_penalty_if_needed_def
        reduce_stress_def maybe_increase_boss_alert_def
        randint_def choice_def get_state_def format_response_def Let_def str_int_small)

text \<open>
  Claim C1, amended. With a non-empty range and a non-empty list of texts the executor
  returns a list of one item of type \<open>text\<close>. Its text is the chosen narrative sentence,
  with the remark about the boss appended exactly when the alert was raised, an empty
  line, \<open>Break Summary:\<close> and the activity summary, \<open>Stress Level:\<close> and the final stress,
  \<open>Boss Alert Level:\<close> and the final alert level. The nominal reduction is no part of it.
\<close>

theorem executor_returns_text:
  assumes "lo \<le> hi" and "msgs \<noteq> []"
  shows "\<exists>r s2 b s3.
           reduce_stress (fst (apply_boss_penalty_if_needed s during_sleep)) lo hi raw1
             = Inr (r, s2)
         \<and> maybe_increase_boss_alert s2 raw2 = Inr (b, s3)
         \<and> msgs ! (raw3 mod length msgs) \<in> set msgs
         \<and> fst (execute_break_tool s tool lo hi summary msgs during_sleep raw1 raw2 raw3)
             = Inr [\<lparr>content_type = ''text'',
                      content_text =
                        (if b then msgs ! (raw3 mod length msgs)
                                   @ '' (Your boss seems to have noticed...)''
                         else msgs ! (raw3 mod length msgs))
                        @ [newline, newline]
                        @ ''Break Summary: '' @ summary @ [newline]
                        @ ''Stress Level: '' @ str_int (stress_level s3) @ [newline]
                        @ ''Boss Alert Level: '' @ str_int (boss_alert_level s3)\<rparr>]"
proof -
  obtain s1 fx where pen: "apply_boss_penalty_if_needed s during_sleep = (s1, fx)"
    by (cases "apply_boss_penalty_if_needed s during_sleep")
  from assms(1) obtain r s2 where red: "reduce_stress s1 lo hi raw1 = Inr (r, s2)"
    using reduce_stress_returns by blast
  obtain b s3 where roll: "maybe_increase_boss_alert s2 raw2 = Inr (b, s3)"
    using maybe_increase_boss_alert_returns by blast
  from assms(2) have ch: "choice msgs raw3 = Inr (msgs ! (raw3 mod length msgs))"
    by (simp add: choice_def)
  from assms(2) have mem: "msgs ! (raw3 mod length msgs) \<in> set msgs"
    by simp
  note run = execute_break_tool_steps [OF pen red roll ch, of tool summary]
  show ?thesis
    using pen red roll mem run
    by (intro exI [of _ r] exI [of _ s2] exI [of _ b] exI [of _ s3])
       (simp add: format_response_def Let_def)
qed

theorem executor_returns_text_witness:
  "(10::int) \<le> 25 \<and> [''Coffee acquired. Energy restored.''] \<noteq> []
   \<and> fst (execute_break_tool (AgentStateManager_init 100 300)
        ''coffee_mission'' 10 25 ''Went on a coffee mission''
        [''Coffee acquired. Energy restored.''] [] 0 0 0)
     = Inr [\<lparr>content_type = ''text'',
              content_text =
                ''Coffee acquired. Energy restored. (Your boss seems to have noticed...)''
                @ [newline, newline] @ ''Break Summary: Went on a coffee mission''
                @ [newline] @ ''Stress Level: 40''
                @ [newline] @ ''Boss Alert Level: 1''\<rparr>]"
proof -
  have h1: "(10::int) \<le> 25" by simp
  have h2: "[''Coffee acquired. Energy restored.''] \<noteq> []" by simp
  show ?thesis
    using executor_returns_text [OF h1 h2, of "AgentStateManager_init 100 300" "[]" 0 0 0
            "''coffee_mission''" "''Went on a coffee mission''"]
    by (simp add: AgentStateManager_init_def execute_break_tool_def
          apply_boss_penalty_if_needed_def reduce_stress_def maybe_increase_boss_alert_def
          randint_def choice_def get_state_def format_response_def Let_def
          str_int_def str_nat.simps digit_char_def)
qed

subsection \<open>The last two lines of the text\<close>

lemma lines_of_nonempty: "lines_of t \<noteq> []"
  by (induction t) (auto split: list.splits)

lemma lines_of_single: "newline \<notin> set t \<Longrightarrow> lines_of t = [t]"
  by (induction t) auto

lemma lines_of_append: "lines_of (a @ newline # b) = lines_of a @ lines_of b"
proof (induction a)
  case Nil
  show ?case by simp
next
  case (Cons c a)
  obtain l ls where l: "lines_of a = l # ls"
    using lines_of_nonempty [of a] by (cases "lines_of a") auto
  with Cons show ?case by simp
qed

lemma lines_of_last_two:
  assumes "newline \<notin> set l1" and "newline \<notin> set l2"
  shows "lines_of (p @ [newline] @ l1 @ [newline] @ l2) = lines_of p @ [l1, l2]"
proof -
  have "lines_of (p @ [newline] @ l1 @ [newline] @ l2)
          = lines_of p @ lines_of (l1 @ newline # l2)"
    using lines_of_append [of p "l1 @ newline # l2"] by simp
  also have "lines_of (l1 @ newline # l2) = lines_of l1 @ lines_of l2"
    by (rule lines_of_append)
  finally show ?thesis
    using assms by (simp add: lines_of_single)
qed

lemma digit_char_digit: "d < 10 \<Longrightarrow> digit_char d \<in> set ''0123456789''"
  unfolding digit_char_def by (rule nth_mem) simp

lemma str_nat_digits: "set (str_nat n) \<subseteq> set ''0123456789''"
proof (induction n rule: str_nat.induct)
  case (1 n)
  show ?case
  proof (cases "n < 10")
    case True
    then have "str_nat n = [digit_char n]" by (simp add: str_nat.simps)
    with digit_char_digit [OF True] show ?thesis by simp
  next
    case False
    then have eq: "str_nat n = str_nat (n div 10) @ [digit_char (n mod 10)]"
      by (subst str_nat.simps) simp
    have "digit_char (n mod 10) \<in> set ''0123456789''"
      by (rule digit_char_digit) simp
    with "1.IH" [OF False] eq show ?thesis by simp
  qed
qed

lemma str_int_no_newline: "newline \<notin> set (str_int i)"
proof -
  have "newline \<notin> set ''0123456789''" by (simp add: newline_def)
  with str_nat_digits have "newline \<notin> set (str_nat n)" for n by blast
  then show ?thesis by (simp add: str_int_def newline_def)
qed

lemma format_response_lines:
  "\<exists>t. format_response summary creative stress boss
          = [\<lparr>content_type = ''text'', content_text = t\<rparr>]
     \<and> lines_of t = lines_of (creative @ [newline, newline] @ ''Break Summary: '' @ summary)
                     @ [''Stress Level: '' @ str_int stress,
                        ''Boss Alert Level: '' @ str_int boss]"
proof -
  have n1: "newline \<notin> set (''Stress Level: '' @ str_int stress)"
    using str_int_no_newline [of stress] by (simp add: newline_def)
  have n2: "newline \<notin> set (''Boss Alert Level: '' @ str_int boss)"
    using str_int_no_newline [of boss] by (simp add: newline_def)
  from lines_of_last_two [OF n1 n2,
         of "creative @ [newline, newline] @ ''Break Summary: '' @ summary"]
  show ?thesis
    by (simp add: format_response_def Let_def)
qed

subsection \<open>The rendering of the final gauges\<close>

lemma execute_break_tool_value:
  assumes run: "execute_break_tool s tool lo hi summary msgs during_sleep raw1 raw2 raw3
             = (Inr resp, s', fx)"
  shows "lo \<le> hi \<and> msgs \<noteq> []
       \<and> (\<exists>r s2 b.
             reduce_stress (fst (apply_boss_penalty_if_needed s during_sleep)) lo hi raw1
               = Inr (r, s2)
           \<and> maybe_increase_boss_alert s2 raw2 = Inr (b, s')
           \<and> resp = format_response summary
                      (if b then (msgs ! (raw3 mod length msgs))
                                 @ '' (Your boss seems to have noticed...)''
                       else msgs ! (raw3 mod length msgs))
                      (stress_level s') (boss_alert_level s'))"
proof -
  obtain s1 fx1 where pen: "apply_boss_penalty_if_needed s during_sleep = (s1, fx1)"
    by (cases "apply_boss_penalty_if_needed s during_sleep")
  have range: "lo \<le> hi"
  proof (rule ccontr)
    assume "\<not> lo \<le> hi"
    then have "hi < lo" by simp
    from execute_break_tool_empty_range [OF pen this, of tool summary msgs raw1 raw2 raw3] run
    show False by simp
  qed
  then obtain r s2 where red: "reduce_stress s1 lo hi raw1 = Inr (r, s2)"
    using reduce_stress_returns by blast
  obtain b s3 where roll: "maybe_increase_boss_alert s2 raw2 = Inr (b, s3)"
    using maybe_increase_boss_alert_returns by blast
  have texts: "msgs \<noteq> []"
  proof
    assume "msgs = []"
    with execute_break_tool_no_text [OF pen red roll, of tool summary raw3] run
    show False by simp
  qed
  then have ch: "choice msgs raw3 = Inr (msgs ! (raw3 mod length msgs))"
    by (simp add: choice_def)
  from execute_break_tool_steps [OF pen red roll ch, of tool summary] run
  have s': "s' = s3"
    and resp: "resp = format_response summary
                      (if b then (msgs ! (raw3 mod length msgs))
                                 @ '' (Your boss seems to have noticed...)''
                       else msgs ! (raw3 mod length msgs))
                      (stress_level s3) (boss_alert_level s3)"
    by simp_all
  from range texts pen red roll s' resp show ?thesis by auto
qed

lemma execute_break_tool_returns:
  assumes "lo \<le> hi" and "msgs \<noteq> []"
  shows "\<exists>resp. fst (execute_break_tool s tool lo hi summary msgs during_sleep raw1 raw2 raw3)
                  = Inr resp"
proof -
  obtain s1 fx where pen: "apply_boss_penalty_if_needed s during_sleep = (s1, fx)"
    by (cases "apply_boss_penalty_if_needed s during_sleep")
  from assms(1) obtain r s2 where red: "reduce_stress s1 lo hi raw1 = Inr (r, s2)"
    using reduce_stress_returns by blast
  obtain b s3 where roll: "maybe_increase_boss_alert s2 raw2 = Inr (b, s3)"
    using maybe_increase_boss_alert_returns by blast
  from assms(2) have ch: "choice msgs raw3 = Inr (msgs ! (raw3 mod length msgs))"
    by (simp add: choice_def)
  from execute_break_tool_steps [OF pen red roll ch, of tool summary]
  show ?thesis by simp
qed

lemma break_tools_return:
  "\<exists>resp. fst (take_a_break s during_sleep raw1 raw2 raw3) = Inr resp"
  "\<exists>resp. fst (watch_netflix s during_sleep raw1 raw2 raw3) = Inr resp"
  "\<exists>resp. fst (show_meme s during_sleep raw1 raw2 raw3) = Inr resp"
  "\<exists>resp. fst (bathroom_break s during_sleep raw1 raw2 raw3) = Inr resp"
  "\<exists>resp. fst (coffee_mission s during_sleep raw1 raw2 raw3) = Inr resp"
  "\<exists>resp. fst (urgent_call s during_sleep raw1 raw2 raw3) = Inr resp"
  "\<exists>resp. fst (deep_thinking s during_sleep raw1 raw2 raw3) = Inr resp"
  "\<exists>resp. fst (email_organizing s during_sleep raw1 raw2 raw3) = Inr resp"
  unfolding take_a_break_def watch_netflix_def show_meme_def bathroom_break_def
    coffee_mission_def urgent_call_def deep_thinking_def email_organizing_def
  by (rule execute_break_tool_returns, simp, simp)+

text \<open>
  Claim C10. A call of the executor with a non-empty range and a non-empty list of
  texts returns, and so does each of the eight break tools (\<open>break_tools_return\<close>).
  Whatever a call returns is a list of one item of type \<open>text\<close>, and the last two lines
  of its text are \<open>Stress Level:\<close> followed by the stress and \<open>Boss Alert Level:\<close> followed
  by the alert level of the snapshot taken in that call. That snapshot holds the two
  gauges of the record as the alert roll of the call left it, which is the record the
  call ends with.
\<close>

theorem response_last_two_lines:
  "(lo \<le> hi \<and> msgs \<noteq> [] \<longrightarrow>
      (\<exists>resp. fst (execute_break_tool s tool lo hi summary msgs during_sleep raw1 raw2 raw3)
                 = Inr resp))
   \<and> (\<forall>resp s' fx.
        execute_break_tool s tool lo hi summary msgs during_sleep raw1 raw2 raw3
          = (Inr resp, s', fx) \<longrightarrow>
        (\<exists>r s2 b.
            reduce_stress (fst (apply_boss_penalty_if_needed s during_sleep)) lo hi raw1
              = Inr (r, s2)
          \<and> maybe_increase_boss_alert s2 raw2 = Inr (b, s'))
        \<and> get_state s' = \<lparr>dict_stress_level = stress_level s',
                           dict_boss_alert_level = boss_alert_level s'\<rparr>
        \<and> (\<exists>t. resp = [\<lparr>content_type = ''text'', content_text = t\<rparr>]
            \<and> 2 \<le> length (lines_of t)
            \<and> drop (length (lines_of t) - 2) (lines_of t)
                = [''Stress Level: '' @ str_int (stress_level s'),
                   ''Boss Alert Level: '' @ str_int (boss_alert_level s')]))"
proof (intro conjI impI allI)
  assume "lo \<le> hi \<and> msgs \<noteq> []"
  then show "\<exists>resp. fst (execute_break_tool s tool lo hi summary msgs during_sleep
                              raw1 raw2 raw3) = Inr resp"
    using execute_break_tool_returns by blast
next
  fix resp s' fx
  assume run: "execute_break_tool s tool lo hi summary msgs during_sleep raw1 raw2 raw3
                 = (Inr resp, s', fx)"
  from execute_break_tool_value [OF run]
  show "\<exists>r s2 b.
            reduce_stress (fst (apply_boss_penalty_if_needed s during_sleep)) lo hi raw1
              = Inr (r, s2)
          \<and> maybe_increase_boss_alert s2 raw2 = Inr (b, s')"
    by blast
next
  fix resp s' :: agent and fx
  show "get_state s' = \<lparr>dict_stress_level = stress_level s',
                         dict_boss_alert_level = boss_alert_level s'\<rparr>"
    by (simp add: get_state_def)
next
  fix resp s' fx
  assume run: "execute_break_tool s tool lo hi summary msgs during_sleep raw1 raw2 raw3
                 = (Inr resp, s', fx)"
  from execute_break_tool_value [OF run] obtain creative
    where resp: "resp = format_response summary creative
                          (stress_level s') (boss_alert_level s')"
    by blast
  from format_response_lines [of summary creative "stress_level s'" "boss_alert_level s'"]
  obtain t where t: "format_response summary creative (stress_level s') (boss_alert_level s')
                     = [\<lparr>content_type = ''text'', content_text = t\<rparr>]"
    and ls: "lines_of t
               = lines_of (creative @ [newline, newline] @ ''Break Summary: '' @ summary)
                 @ [''Stress Level: '' @ str_int (stress_level s'),
                    ''Boss Alert Level: '' @ str_int (boss_alert_level s')]"
    by blast
  have "2 \<le> length (lines_of t)" by (simp add: ls)
  moreover have "drop (length (lines_of t) - 2) (lines_of t)
                = [''Stress Level: '' @ str_int (stress_level s'),
                   ''Boss Alert Level: '' @ str_int (boss_alert_level s')]"
    by (simp add: ls)
  ultimately show "\<exists>t. resp = [\<lparr>content_type = ''text'', content_text = t\<rparr>]
            \<and> 2 \<le> length (lines_of t)
            \<and> drop (length (lines_of t) - 2) (lines_of t)
                = [''Stress Level: '' @ str_int (stress_level s'),
                   ''Boss Alert Level: '' @ str_int (boss_alert_level s')]"
    using resp t by blast
qed

theorem response_last_two_lines_witness:
  "((5::int) \<le> 15 \<and> [''Looking contemplative. Actually just zoning out.''] \<noteq> [])
   \<and> execute_break_tool (AgentStateManager_init 50 300) ''deep_thinking'' 5 15
        ''Engaged in deep thinking''
        [''Looking contemplative. Actually just zoning out.''] [] 4 70 0
      = (Inr [\<lparr>content_type = ''text'',
                content_text =
                  ''Looking contemplative. Actually just zoning out.''
                  @ [newline, newline] @ ''Break Summary: Engaged in deep thinking''
                  @ [newline] @ ''Stress Level: 41''
                  @ [newline] @ ''Boss Alert Level: 0''\<rparr>],
         \<lparr>stress_level = 41, boss_alert_level = 0, boss_alertness = 50,
          boss_alertness_cooldown = 300\<rparr>,
         [Print ''[BREAK-TOOL: deep_thinking] Stress Level: 41/100, Boss Alert Level: 0/5''])
   \<and> drop (length (lines_of
                (''Looking contemplative. Actually just zoning out.''
                  @ [newline, newline] @ ''Break Summary: Engaged in deep thinking''
                  @ [newline] @ ''Stress Level: 41''
                  @ [newline] @ ''Boss Alert Level: 0'')) - 2)
          (lines_of
                (''Looking contemplative. Actually just zoning out.''
                  @ [newline, newline] @ ''Break Summary: Engaged in deep thinking''
                  @ [newline] @ ''Stress Level: 41''
                  @ [newline] @ ''Boss Alert Level: 0''))
      = [''Stress Level: 41'', ''Boss Alert Level: 0'']"
proof -
  let ?T = "''Looking contemplative. Actually just zoning out.''
                  @ [newline, newline] @ ''Break Summary: Engaged in deep thinking''
                  @ [newline] @ ''Stress Level: 41''
                  @ [newline] @ ''Boss Alert Level: 0''"
  let ?S = "\<lparr>stress_level = 41, boss_alert_level = 0, boss_alertness = 50,
          boss_alertness_cooldown = 300\<rparr>"
  have s41: "str_int 41 = ''41''" and s0: "str_int 0 = ''0''"
    by (simp_all add: str_int_def str_nat.simps digit_char_def)
  have run: "execute_break_tool (AgentStateManager_init 50 300) ''deep_thinking'' 5 15
        ''Engaged in deep thinking''
        [''Looking contemplative. Actually just zoning out.''] [] 4 70 0
      = (Inr [\<lparr>content_type = ''text'', content_text = ?T\<rparr>], ?S,
         [Print ''[BREAK-TOOL: deep_thinking] Stress Level: 41/100, Boss Alert Level: 0/5''])"
    by (simp add: AgentStateManager_init_def execute_break_tool_def
          apply_boss_penalty_if_needed_def reduce_stress_def maybe_increase_boss_alert_def
          randint_def choice_def get_state_def format_response_def Let_def s41 s0)
  note tail = response_last_two_lines [of 5 15
         "[''Looking contemplative. Actually just zoning out.'']"
         "AgentStateManager_init 50 300" "''deep_thinking''" "''Engaged in deep thinking''"
         "[]" 4 70 0, THEN conjunct2, rule_format, OF run, THEN conjunct2, THEN conjunct2]
  then obtain t where eq: "[\<lparr>content_type = ''text'', content_text = ?T\<rparr>]
              = [\<lparr>content_type = ''text'', content_text = t\<rparr>]"
    and dr: "drop (length (lines_of t) - 2) (lines_of t)
              = [''Stress Level: '' @ str_int (stress_level ?S),
                 ''Boss Alert Level: '' @ str_int (boss_alert_level ?S)]"
    by (elim exE conjE)
  from eq have t: "t = ?T" by (simp only: list.inject content.ext_inject simp_thms)
  have rhs: "[''Stress Level: '' @ str_int (stress_level ?S),
                 ''Boss Alert Level: '' @ str_int (boss_alert_level ?S)]
             = [''Stress Level: 41'', ''Boss Alert Level: 0'']"
    by (simp add: s41 s0)
  have last2: "drop (length (lines_of ?T) - 2) (lines_of ?T)
               = [''Stress Level: 41'', ''Boss Alert Level: 0'']"
    using dr unfolding t rhs .
  have h: "(5::int) \<le> 15 \<and> [''Looking contemplative. Actually just zoning out.''] \<noteq> []"
    by simp
  show ?thesis by (rule conjI [OF h conjI [OF run last2]])
qed

end
